theory Spec2Isabelle
  imports Main
begin

section \<open>Values that cross the proxy\<close>

text \<open>
  Header names and values, paths and message payloads are byte strings (\<open>string\<close>).
  A \<open>Headers\<close> object is the ordered list of its name/value pairs.
\<close>

type_synonym headers = "(string \<times> string) list"

text \<open>\<open>String.prototype.toLowerCase\<close> on a byte string: A-Z and the upper-case
  letters of Latin-1 (0xC0-0xDE without the multiplication sign 0xD7) move up by 32.\<close>

definition lower_char :: "char \<Rightarrow> char" where
  "lower_char c =
     (let n = (of_char c :: nat)
      in if (65 \<le> n \<and> n \<le> 90) \<or> (192 \<le> n \<and> n \<le> 214) \<or> (216 \<le> n \<and> n \<le> 222)
         then char_of (n + 32) else c)"

definition toLowerCase :: "string \<Rightarrow> string" where
  "toLowerCase s = map lower_char s"

text \<open>\<open>Headers.get(name)\<close>: the name is matched without regard to case; several values
  of one name are joined with a comma and a space; \<open>null\<close> (here \<open>None\<close>) when absent.\<close>

fun join_values :: "string list \<Rightarrow> string" where
  "join_values [] = []"
| "join_values [v] = v"
| "join_values (v # w # vs) = v @ '', '' @ join_values (w # vs)"

definition headers_get :: "headers \<Rightarrow> string \<Rightarrow> string option" where
  "headers_get h name =
     (case map snd (filter (\<lambda>kv. toLowerCase (fst kv) = toLowerCase name) h) of
        [] \<Rightarrow> None
      | vs \<Rightarrow> Some (join_values vs))"

text \<open>What a thrown JavaScript value can be: an \<open>HttpError\<close> (status and message, made by
  \<open>ctx.throw\<close>), any other \<open>Error\<close> (message), or a value that is no \<open>Error\<close>.\<close>

datatype js_error = HttpError nat string | Error string | NonError

text \<open>\<open>errorBody\<close> of \<open>bodyFormat.ts\<close>: the envelope; \<open>data: null\<close> is \<open>None\<close>.\<close>

record envelope =
  code :: nat
  data :: "string option"
  status :: string
  message :: string

definition errorBody :: "string \<Rightarrow> envelope" where
  "errorBody msg = \<lparr>code = 500, data = None, status = ''error'', message = msg\<rparr>"

text \<open>The values the code hands over as a body: to \<open>fetch\<close> (\<open>undefined\<close> or the awaited
  value of the request body) and to \<open>ctx.response.body\<close> (a string, the upstream's
  \<open>ReadableStream\<close> given by its chunks, the upgraded socket, or an envelope).\<close>

datatype body_value =
    Undefined
  | Text string
  | Awaited string
  | ReadableStream "string list"
  | SocketBody
  | Envelope envelope

record fetch_request =
  url :: string
  fr_method :: string
  fr_headers :: headers
  fr_body :: body_value

record fetch_response =
  res_status :: nat
  res_headers :: headers
  res_body :: "string list option"

section \<open>The two sockets of a tunnel\<close>

text \<open>\<open>ws\<close> is the upgraded downstream socket, \<open>wsClient\<close> the socket opened to the
  upstream. The code reaches them only through \<open>send\<close> and \<open>close\<close>, and hears from them
  only through the three handlers it installs on each.\<close>

datatype socket = Ws | WsClient

datatype socket_call = Send socket string | Close socket

text \<open>The socket on the other end of the tunnel.\<close>

fun other :: "socket \<Rightarrow> socket" where
  "other Ws = WsClient"
| "other WsClient = Ws"

datatype socket_event = OnMessage socket string | OnClose socket | OnError socket

record relay =
  wsClient_onmessage :: "string \<Rightarrow> socket_call list"
  wsClient_onclose :: "socket_call list"
  wsClient_onerror :: "socket_call list"
  ws_onmessage :: "string \<Rightarrow> socket_call list"
  ws_onclose :: "socket_call list"
  ws_onerror :: "socket_call list"

text \<open>The handlers of \<open>frontendMiddleware\<close>, in the order the source assigns them.\<close>

definition relay_handlers :: relay where
  "relay_handlers =
     \<lparr>wsClient_onmessage = (\<lambda>d. [Send Ws d]),
      wsClient_onclose = [Close Ws],
      wsClient_onerror = [Close Ws],
      ws_onmessage = (\<lambda>d. [Send WsClient d]),
      ws_onclose = [Close WsClient],
      ws_onerror = [Close Ws]\<rparr>"

text \<open>Delivering one event runs the handler installed for it; a run of events runs the
  handlers one after the other.\<close>

fun fire :: "relay \<Rightarrow> socket_event \<Rightarrow> socket_call list" where
  "fire r (OnMessage WsClient d) = wsClient_onmessage r d"
| "fire r (OnClose WsClient) = wsClient_onclose r"
| "fire r (OnError WsClient) = wsClient_onerror r"
| "fire r (OnMessage Ws d) = ws_onmessage r d"
| "fire r (OnClose Ws) = ws_onclose r"
| "fire r (OnError Ws) = ws_onerror r"

fun fire_all :: "relay \<Rightarrow> socket_event list \<Rightarrow> socket_call list" where
  "fire_all r [] = []"
| "fire_all r (e # es) = fire r e @ fire_all r es"

section \<open>Context, outside world and effects\<close>

text \<open>The request as the context shows it. The middleware never reads the body itself;
  it asks the framework for the body's value (\<open>body_read\<close> below).\<close>

record request =
  req_method :: string
  pathname :: string
  search :: string
  headers :: headers
  hasBody :: bool

text \<open>Every call that leaves the process, in the order it is made.\<close>

datatype effect =
    ReadBody
  | Fetch fetch_request
  | ConsoleError
  | Upgrade
  | NewWebSocket string
  | Call socket_call
  | LogInfo string string "nat option"
  | LogError string string

text \<open>The Oak context as far as the middlewares touch it, together with the trace of
  effects and the handlers installed on the sockets. \<open>res_code = None\<close> is a response
  status that was never assigned.\<close>

record state =
  req :: request
  isUpgradable :: bool
  res_code :: "nat option"
  res_hdrs :: headers
  res_bdy :: body_value
  respond :: bool
  effects :: "effect list"
  tunnel :: "relay option"

text \<open>What the code cannot decide itself: the configuration, and the outcome of each call
  to the framework and the runtime (\<open>Inl\<close> is a thrown exception or a rejected promise).
  \<open>body_read\<close> is the outcome of \<open>await ctx.request.body().value\<close>, the line the source
  puts under \<open>@ts-ignore\<close>.\<close>

record env =
  WEB_URL :: string
  PREFIX :: string
  throw_message :: "nat \<Rightarrow> string"
  upgrade_result :: "js_error + unit"
  new_WebSocket :: "string \<Rightarrow> js_error + unit"
  body_read :: "js_error + string"
  fetch :: "fetch_request \<Rightarrow> js_error + fetch_response"

datatype completion = Normal | Throw js_error

type_synonym middleware = "state \<Rightarrow> completion \<times> state"

definition emit :: "effect list \<Rightarrow> state \<Rightarrow> state" where
  "emit es s = s\<lparr>effects := effects s @ es\<rparr>"

section \<open>frontendMiddleware\<close>

definition searchParams :: "state \<Rightarrow> string" where
  "searchParams s = (if search (req s) = [] then [] else search (req s))"

definition is_websocket_upgrade :: "state \<Rightarrow> bool" where
  "is_websocket_upgrade s =
     (case headers_get (headers (req s)) ''upgrade'' of
        None \<Rightarrow> False
      | Some u \<Rightarrow> toLowerCase u = ''websocket'')"

definition wsUrl :: "env \<Rightarrow> state \<Rightarrow> string" where
  "wsUrl e s = ''ws://'' @ WEB_URL e @ pathname (req s) @ searchParams s"

definition httpUrl :: "env \<Rightarrow> state \<Rightarrow> string" where
  "httpUrl e s = ''http://'' @ WEB_URL e @ pathname (req s) @ searchParams s"

text \<open>The \<open>catch\<close> block of the HTTP path.\<close>

definition bad_gateway :: "state \<Rightarrow> completion \<times> state" where
  "bad_gateway s =
     (Normal, (emit [ConsoleError] s)\<lparr>res_code := Some 502, res_bdy := Text ''Bad Gateway''\<rparr>)"

text \<open>The WebSocket branch: \<open>ctx.throw(501)\<close> and \<open>ctx.upgrade()\<close> stand outside the
  \<open>try\<close>, the constructor of the upstream socket inside it.\<close>

definition tunnel_branch :: "env \<Rightarrow> middleware" where
  "tunnel_branch e s =
     (if \<not> isUpgradable s then (Throw (HttpError 501 (throw_message e 501)), s)
      else case upgrade_result e of
        Inl err \<Rightarrow> (Throw err, emit [Upgrade] s)
      | Inr _ \<Rightarrow>
          (let s1 = emit [Upgrade, NewWebSocket (wsUrl e s)] s
           in case new_WebSocket e (wsUrl e s) of
                Inl err \<Rightarrow> (Normal, s1\<lparr>res_code := Some 500\<rparr>)
              | Inr _ \<Rightarrow> (Normal, s1\<lparr>tunnel := Some relay_handlers, res_bdy := SocketBody\<rparr>)))"

text \<open>The HTTP branch: the body value is awaited first, then \<open>fetch\<close>; either may throw
  into the \<open>catch\<close>.\<close>

definition forward_branch :: "env \<Rightarrow> middleware" where
  "forward_branch e s =
     (case (if hasBody (req s) then map_sum id Awaited (body_read e) else Inr Undefined) of
        Inl err \<Rightarrow> bad_gateway (emit [ReadBody] s)
      | Inr requestBody \<Rightarrow>
          (let out = \<lparr>url = httpUrl e s, fr_method = req_method (req s),
                      fr_headers = headers (req s), fr_body = requestBody\<rparr>;
               s1 = emit ((if hasBody (req s) then [ReadBody] else []) @ [Fetch out]) s
           in case fetch e out of
                Inl err \<Rightarrow> bad_gateway s1
              | Inr response \<Rightarrow>
                  (Normal,
                   s1\<lparr>res_hdrs := res_headers response,
                      res_code := Some (res_status response),
                      res_bdy := (case res_body response of
                                    None \<Rightarrow> res_bdy s1
                                  | Some chunks \<Rightarrow> ReadableStream chunks)\<rparr>)))"

definition frontendMiddleware :: "env \<Rightarrow> middleware" where
  "frontendMiddleware e s =
     (if is_websocket_upgrade s then tunnel_branch e s else forward_branch e s)"

text \<open>The runtime delivers socket events to the handlers that were installed; the calls
  the handlers make join the trace.\<close>

definition deliver :: "socket_event list \<Rightarrow> state \<Rightarrow> state" where
  "deliver evs s =
     (case tunnel s of
        None \<Rightarrow> s
      | Some r \<Rightarrow> emit (map Call (fire_all r evs)) s)"

section \<open>The middleware chain of the server\<close>

text \<open>The message shown for a thrown value that is no \<open>Error\<close> (UTF-8 bytes of the
  source's literal).\<close>

definition internal_error_text :: string where
  "internal_error_text =
     [CHR 0xE6, CHR 0x9C, CHR 0x8D, CHR 0xE5, CHR 0x8A, CHR 0xA1, CHR 0xE5, CHR 0x99, CHR 0xA8,
      CHR 0xE5, CHR 0x86, CHR 0x85, CHR 0xE9, CHR 0x83, CHR 0xA8, CHR 0xE9, CHR 0x94, CHR 0x99,
      CHR 0xE8, CHR 0xAF, CHR 0xAF]"

fun error_message :: "js_error \<Rightarrow> string option" where
  "error_message (HttpError st m) = Some m"
| "error_message (Error m) = Some m"
| "error_message NonError = None"

text \<open>\<open>let status = 500; if (isHttpError(err)) status = err.status\<close>.\<close>

fun error_status :: "js_error \<Rightarrow> nat" where
  "error_status (HttpError st m) = st"
| "error_status (Error m) = 500"
| "error_status NonError = 500"

definition errorMiddleware :: "middleware \<Rightarrow> middleware" where
  "errorMiddleware next s =
     (case next s of
        (Normal, s') \<Rightarrow> (Normal, s')
      | (Throw err, s') \<Rightarrow>
          (Normal,
           (emit [ConsoleError] s')
             \<lparr>res_code := Some (error_status err),
              res_bdy := Envelope (errorBody (case error_message err of
                                               Some m \<Rightarrow> m
                                             | None \<Rightarrow> internal_error_text)),
              respond := True\<rparr>))"

text \<open>The request log: the request id and the elapsed time of the source's messages are
  left out, the method, the path and the status are kept.\<close>

definition loggerMiddleware :: "middleware \<Rightarrow> middleware" where
  "loggerMiddleware next s =
     (let s0 = emit [LogInfo (req_method (req s)) (pathname (req s)) None] s
      in case next s0 of
           (Normal, s') \<Rightarrow>
             (Normal, emit [LogInfo (req_method (req s)) (pathname (req s)) (res_code s')] s')
         | (Throw err, s') \<Rightarrow>
             (Throw err, emit [LogError (req_method (req s)) (pathname (req s))] s'))"

text \<open>\<open>path.startsWith(PREFIX)\<close> sends API requests on to the router (\<open>next\<close>) and
  everything else to the proxy.\<close>

definition startsWith :: "string \<Rightarrow> string \<Rightarrow> bool" where
  "startsWith s p = (take (length p) s = p)"

definition proxy_dispatch :: "env \<Rightarrow> middleware \<Rightarrow> middleware" where
  "proxy_dispatch e next s =
     (if startsWith (pathname (req s)) (PREFIX e) then next s else frontendMiddleware e s)"

definition server :: "env \<Rightarrow> middleware \<Rightarrow> middleware" where
  "server e router = loggerMiddleware (errorMiddleware (proxy_dispatch e router))"

text \<open>A context as the framework hands it to the first middleware.\<close>

definition fresh :: "request \<Rightarrow> bool \<Rightarrow> state" where
  "fresh r up =
     \<lparr>req = r, isUpgradable = up, res_code = None, res_hdrs = [], res_bdy = Undefined,
      respond = True, effects = [], tunnel = None\<rparr>"

section \<open>Reading a trace\<close>

fun fetches :: "effect list \<Rightarrow> fetch_request list" where
  "fetches [] = []"
| "fetches (Fetch out # es) = out # fetches es"
| "fetches (_ # es) = fetches es"

fun opened :: "effect list \<Rightarrow> string list" where
  "opened [] = []"
| "opened (NewWebSocket u # es) = u # opened es"
| "opened (_ # es) = opened es"

fun sent_to :: "socket \<Rightarrow> effect list \<Rightarrow> string list" where
  "sent_to k [] = []"
| "sent_to k (Call (Send k' d) # es) = (if k' = k then d # sent_to k es else sent_to k es)"
| "sent_to k (_ # es) = sent_to k es"

fun closed :: "socket \<Rightarrow> effect list \<Rightarrow> bool" where
  "closed k [] = False"
| "closed k (Call (Close k') # es) = (k' = k \<or> closed k es)"
| "closed k (_ # es) = closed k es"

fun received_on :: "socket \<Rightarrow> socket_event list \<Rightarrow> string list" where
  "received_on k [] = []"
| "received_on k (OnMessage k' d # evs) =
     (if k' = k then d # received_on k evs else received_on k evs)"
| "received_on k (_ # evs) = received_on k evs"

text \<open>What the runtime keeps to when it reports on a socket: an error event is followed
  by the close event of the same socket.\<close>

fun error_then_close :: "socket_event list \<Rightarrow> bool" where
  "error_then_close [] = True"
| "error_then_close (OnError k # evs) = (OnClose k \<in> set evs \<and> error_then_close evs)"
| "error_then_close (_ # evs) = error_then_close evs"

section \<open>Sample configurations and requests\<close>

definition script_response :: fetch_response where
  "script_response =
     \<lparr>res_status = 200, res_headers = [(''content-type'', ''text/javascript'')],
      res_body = Some [''console.log(1)'']\<rparr>"

text \<open>The development configuration of \<open>env.ts\<close> with the upstream answering. Under the
  Oak the source imports, \<open>ctx.request.body\<close> is a property and not a function, so the
  call \<open>ctx.request.body()\<close> throws.\<close>

definition dev_env :: env where
  "dev_env =
     \<lparr>WEB_URL = ''localhost:5173'', PREFIX = ''/api'',
      throw_message = (\<lambda>n. ''Not Implemented''),
      upgrade_result = Inr (),
      new_WebSocket = (\<lambda>u. Inr ()),
      body_read = Inl (Error ''ctx.request.body is not a function''),
      fetch = (\<lambda>out. Inr script_response)\<rparr>"

text \<open>The same configuration with nothing listening upstream: every \<open>fetch\<close> is
  rejected.\<close>

definition down_env :: env where
  "down_env = dev_env\<lparr>fetch := (\<lambda>out. Inl (Error ''connection refused''))\<rparr>"

text \<open>A configuration whose upstream address has no valid port, so that the constructor
  of the upstream socket throws.\<close>

definition bad_url_env :: env where
  "bad_url_env =
     dev_env\<lparr>WEB_URL := ''localhost:port'',
             new_WebSocket := (\<lambda>u. Inl (Error ''Invalid URL''))\<rparr>"

definition get_script :: request where
  "get_script =
     \<lparr>req_method = ''GET'', pathname = ''/assets/app.js'', search = [],
      headers = [(''host'', ''127.0.0.1:8000''), (''accept'', ''*/*'')],
      hasBody = False\<rparr>"

definition get_page :: request where
  "get_page =
     \<lparr>req_method = ''GET'', pathname = ''/index.html'', search = ''?v=2'',
      headers = [(''host'', ''127.0.0.1:8000''), (''accept-language'', ''en'')],
      hasBody = False\<rparr>"

definition post_form :: request where
  "post_form =
     \<lparr>req_method = ''POST'', pathname = ''/upload'', search = ''?v=1'',
      headers = [(''host'', ''127.0.0.1:8000''),
                 (''content-type'', ''application/x-www-form-urlencoded'')],
      hasBody = True\<rparr>"

definition ws_request :: request where
  "ws_request =
     \<lparr>req_method = ''GET'', pathname = ''/ws'', search = ''?token=abc'',
      headers = [(''host'', ''127.0.0.1:8000''), (''connection'', ''Upgrade''),
                 (''Upgrade'', ''WebSocket'')],
      hasBody = False\<rparr>"

section \<open>Basic facts\<close>

lemma emit_simps:
  "effects (emit es s) = effects s @ es"
  "req (emit es s) = req s"
  "isUpgradable (emit es s) = isUpgradable s"
  "res_code (emit es s) = res_code s"
  "res_hdrs (emit es s) = res_hdrs s"
  "res_bdy (emit es s) = res_bdy s"
  "respond (emit es s) = respond s"
  "tunnel (emit es s) = tunnel s"
  by (simp_all add: emit_def)

lemma searchParams_search: "searchParams s = search (req s)"
  by (simp add: searchParams_def)

lemma fetches_append: "fetches (xs @ ys) = fetches xs @ fetches ys"
  by (induction xs rule: fetches.induct) simp_all

lemma opened_append: "opened (xs @ ys) = opened xs @ opened ys"
  by (induction xs rule: opened.induct) simp_all

lemma sent_to_append: "sent_to k (xs @ ys) = sent_to k xs @ sent_to k ys"
  by (induction k xs rule: sent_to.induct) simp_all

lemma closed_append: "closed k (xs @ ys) = (closed k xs \<or> closed k ys)"
  by (induction k xs rule: closed.induct) simp_all

lemma frontend_forward:
  "\<not> is_websocket_upgrade s \<Longrightarrow> frontendMiddleware e s = forward_branch e s"
  by (simp add: frontendMiddleware_def)

lemma frontend_tunnel:
  "is_websocket_upgrade s \<Longrightarrow> frontendMiddleware e s = tunnel_branch e s"
  by (simp add: frontendMiddleware_def)

text \<open>Lower-casing of the sample header names and values, by evaluation.\<close>

lemma lower_samples:
  "toLowerCase ''upgrade'' = ''upgrade''"
  "toLowerCase ''Upgrade'' = ''upgrade''"
  "toLowerCase ''host'' = ''host''"
  "toLowerCase ''accept'' = ''accept''"
  "toLowerCase ''accept-language'' = ''accept-language''"
  "toLowerCase ''connection'' = ''connection''"
  "toLowerCase ''content-type'' = ''content-type''"
  "toLowerCase ''WebSocket'' = ''websocket''"
  by code_simp+

lemma sample_upgrade:
  "\<not> is_websocket_upgrade (fresh get_script up)"
  "\<not> is_websocket_upgrade (fresh post_form up)"
  "is_websocket_upgrade (fresh ws_request up)"
  "\<not> is_websocket_upgrade (fresh get_page up)"
  by (simp_all add: is_websocket_upgrade_def headers_get_def fresh_def get_script_def
      post_form_def ws_request_def get_page_def lower_samples)

section \<open>The HTTP forwarder\<close>

text \<open>What the HTTP branch does in each of its three outcomes.\<close>

lemma forward_read_fails:
  assumes "hasBody (req s)" and "body_read e = Inl err"
  shows "forward_branch e s =
    (Normal, (emit [ReadBody, ConsoleError] s)
               \<lparr>res_code := Some 502, res_bdy := Text ''Bad Gateway''\<rparr>)"
  using assms by (simp add: forward_branch_def bad_gateway_def emit_def)

lemma forward_fetch_fails:
  assumes "hasBody (req s) \<longrightarrow> body_read e = Inr v"
    and "fetch e \<lparr>url = httpUrl e s, fr_method = req_method (req s), fr_headers = headers (req s),
           fr_body = (if hasBody (req s) then Awaited v else Undefined)\<rparr> = Inl err"
  shows "forward_branch e s =
    (Normal,
     (emit ((if hasBody (req s) then [ReadBody] else []) @
            [Fetch \<lparr>url = httpUrl e s, fr_method = req_method (req s),
                    fr_headers = headers (req s),
                    fr_body = (if hasBody (req s) then Awaited v else Undefined)\<rparr>,
             ConsoleError]) s)
       \<lparr>res_code := Some 502, res_bdy := Text ''Bad Gateway''\<rparr>)"
  using assms by (cases "hasBody (req s)") (simp_all add: forward_branch_def bad_gateway_def emit_def)

lemma forward_fetch_answers:
  assumes "hasBody (req s) \<longrightarrow> body_read e = Inr v"
    and "fetch e \<lparr>url = httpUrl e s, fr_method = req_method (req s), fr_headers = headers (req s),
           fr_body = (if hasBody (req s) then Awaited v else Undefined)\<rparr> = Inr r"
  shows "forward_branch e s =
    (Normal,
     (emit ((if hasBody (req s) then [ReadBody] else []) @
            [Fetch \<lparr>url = httpUrl e s, fr_method = req_method (req s),
                    fr_headers = headers (req s),
                    fr_body = (if hasBody (req s) then Awaited v else Undefined)\<rparr>]) s)
       \<lparr>res_hdrs := res_headers r, res_code := Some (res_status r),
        res_bdy := (case res_body r of None \<Rightarrow> res_bdy s
                    | Some chunks \<Rightarrow> ReadableStream chunks)\<rparr>)"
  using assms
  by (cases "hasBody (req s)"; cases "res_body r")
     (simp_all add: forward_branch_def emit_def Let_def)

lemma forward_effects:
  assumes "hasBody (req s) \<longrightarrow> body_read e = Inr v"
  shows "effects (snd (forward_branch e s)) =
    effects s @ (if hasBody (req s) then [ReadBody] else []) @
      [Fetch \<lparr>url = httpUrl e s, fr_method = req_method (req s), fr_headers = headers (req s),
              fr_body = (if hasBody (req s) then Awaited v else Undefined)\<rparr>] @
      (if isl (fetch e \<lparr>url = httpUrl e s, fr_method = req_method (req s),
                        fr_headers = headers (req s),
                        fr_body = (if hasBody (req s) then Awaited v else Undefined)\<rparr>)
       then [ConsoleError] else [])"
proof (cases "fetch e \<lparr>url = httpUrl e s, fr_method = req_method (req s),
    fr_headers = headers (req s),
    fr_body = (if hasBody (req s) then Awaited v else Undefined)\<rparr>")
  case (Inl err)
  from forward_fetch_fails [OF assms this] Inl show ?thesis
    by (simp add: emit_simps)
next
  case (Inr r)
  from forward_fetch_answers [OF assms this] Inr show ?thesis
    by (simp add: emit_simps)
qed

lemma forward_never_throws: "fst (forward_branch e s) = Normal"
  by (simp add: forward_branch_def bad_gateway_def Let_def split: sum.splits)

lemma forward_unreachable:
  assumes "\<And>out. isl (fetch e out)"
  shows "res_code (snd (forward_branch e s)) = Some 502
    \<and> res_bdy (snd (forward_branch e s)) = Text ''Bad Gateway''
    \<and> res_hdrs (snd (forward_branch e s)) = res_hdrs s
    \<and> tunnel (snd (forward_branch e s)) = tunnel s"
proof (cases "hasBody (req s) \<and> isl (body_read e)")
  case True
  then obtain err where "body_read e = Inl err"
    by (auto simp add: isl_def)
  with True forward_read_fails [of s e err] show ?thesis
    by (simp add: emit_simps)
next
  case False
  then obtain v where v: "hasBody (req s) \<longrightarrow> body_read e = Inr v"
    by (cases "body_read e") auto
  obtain err where "fetch e \<lparr>url = httpUrl e s, fr_method = req_method (req s),
      fr_headers = headers (req s),
      fr_body = (if hasBody (req s) then Awaited v else Undefined)\<rparr> = Inl err"
    using assms by (auto simp add: isl_def)
  from forward_fetch_fails [OF v this] show ?thesis
    by (simp add: emit_simps)
qed

lemma forward_answered:
  assumes "hasBody (req s) \<longrightarrow> body_read e = Inr v"
    and "\<And>out. fetch e out = Inr r"
  shows "res_code (snd (forward_branch e s)) = Some (res_status r)
    \<and> res_hdrs (snd (forward_branch e s)) = res_headers r
    \<and> res_bdy (snd (forward_branch e s)) =
        (case res_body r of None \<Rightarrow> res_bdy s | Some chunks \<Rightarrow> ReadableStream chunks)
    \<and> tunnel (snd (forward_branch e s)) = tunnel s"
  using forward_fetch_answers [OF assms(1) assms(2)]
  by (simp add: emit_simps)

text \<open>The chain around the proxy: the error middleware and the logger pass a normal
  completion through, the logger adding its two lines.\<close>

lemma server_proxied_normal:
  assumes "\<not> startsWith (pathname (req s)) (PREFIX e)"
    and "frontendMiddleware e (emit [LogInfo (req_method (req s)) (pathname (req s)) None] s)
           = (Normal, s')"
  shows "server e router s =
    (Normal, emit [LogInfo (req_method (req s)) (pathname (req s)) (res_code s')] s')"
  using assms
  by (simp add: server_def loggerMiddleware_def errorMiddleware_def proxy_dispatch_def
      emit_simps Let_def)

lemma server_proxied_throw:
  assumes "\<not> startsWith (pathname (req s)) (PREFIX e)"
    and "frontendMiddleware e (emit [LogInfo (req_method (req s)) (pathname (req s)) None] s)
           = (Throw err, s')"
  shows "server e router s =
    (Normal,
     emit [LogInfo (req_method (req s)) (pathname (req s)) (Some (error_status err))]
       ((emit [ConsoleError] s')
          \<lparr>res_code := Some (error_status err),
           res_bdy := Envelope (errorBody (case error_message err of
                                            Some m \<Rightarrow> m
                                          | None \<Rightarrow> internal_error_text)),
           respond := True\<rparr>))"
  using assms
  by (simp add: server_def loggerMiddleware_def errorMiddleware_def proxy_dispatch_def
      emit_simps Let_def)

lemma is_websocket_upgrade_emit [simp]:
  "is_websocket_upgrade (emit es s) = is_websocket_upgrade s"
  by (simp add: is_websocket_upgrade_def emit_simps)

text \<open>
  Claim C1, as amended. A proxied HTTP request whose body, if it has one, could be read
  leads to exactly one outbound \<open>fetch\<close>. Its URL is \<open>http://\<close> followed by the upstream
  address, the path and the query; its method is the request's method; its headers are
  the request's headers as they came, the \<open>host\<close> header among them.
\<close>

theorem C1_outbound_request:
  assumes "\<not> is_websocket_upgrade s"
    and "hasBody (req s) \<longrightarrow> body_read e = Inr v"
  shows "fetches (effects (snd (frontendMiddleware e s))) =
    fetches (effects s) @
      [\<lparr>url = ''http://'' @ WEB_URL e @ pathname (req s) @ search (req s),
        fr_method = req_method (req s),
        fr_headers = headers (req s),
        fr_body = (if hasBody (req s) then Awaited v else Undefined)\<rparr>]"
  using assms(1) forward_effects [OF assms(2)]
  by (simp add: frontend_forward fetches_append httpUrl_def searchParams_search)

theorem C1_outbound_request_witness:
  "fetches (effects (snd (frontendMiddleware dev_env (fresh get_page False)))) =
     [\<lparr>url = ''http://localhost:5173/index.html?v=2'',
       fr_method = ''GET'',
       fr_headers = [(''host'', ''127.0.0.1:8000''), (''accept-language'', ''en'')],
       fr_body = Undefined\<rparr>]"
  using C1_outbound_request [of "fresh get_page False" dev_env "[]"]
  by (simp add: sample_upgrade) (simp add: fresh_def get_page_def dev_env_def)

text \<open>
  Claim C1 as the specification words it fails: the outbound request for the sample
  script carries the \<open>host\<close> header of the inbound request, not the upstream address.
\<close>

theorem C1_host_header_counterexample:
  "fetches (effects (snd (frontendMiddleware dev_env (fresh get_script False)))) =
     [\<lparr>url = ''http://localhost:5173/assets/app.js'',
       fr_method = ''GET'',
       fr_headers = [(''host'', ''127.0.0.1:8000''), (''accept'', ''*/*'')],
       fr_body = Undefined\<rparr>]
   \<and> headers_get [(''host'', ''127.0.0.1:8000''), (''accept'', ''*/*'')] ''host''
       = Some ''127.0.0.1:8000''
   \<and> Some ''127.0.0.1:8000'' \<noteq> Some (WEB_URL dev_env)"
  unfolding frontend_forward [OF sample_upgrade(1)]
  by (simp add: forward_branch_def emit_def httpUrl_def searchParams_def fresh_def
      get_script_def dev_env_def script_response_def headers_get_def lower_samples)

text \<open>
  Claim C2. When the upstream cannot be reached, so that \<open>fetch\<close> rejects whatever it is
  asked, a proxied HTTP request completes normally with status 502 and the fixed,
  non-empty text \<open>Bad Gateway\<close>; nothing is thrown, neither by the forwarder nor by the
  middleware chain around it.
\<close>

theorem C2_bad_gateway:
  assumes "\<not> is_websocket_upgrade s"
    and "\<not> startsWith (pathname (req s)) (PREFIX e)"
    and "\<And>out. isl (fetch e out)"
  shows "fst (frontendMiddleware e s) = Normal
    \<and> res_code (snd (frontendMiddleware e s)) = Some 502
    \<and> res_bdy (snd (frontendMiddleware e s)) = Text ''Bad Gateway''
    \<and> ''Bad Gateway'' \<noteq> []
    \<and> fst (server e router s) = Normal
    \<and> res_code (snd (server e router s)) = Some 502
    \<and> res_bdy (snd (server e router s)) = Text ''Bad Gateway''"
proof -
  let ?s0 = "emit [LogInfo (req_method (req s)) (pathname (req s)) None] s"
  obtain s1 where s1: "forward_branch e s = (Normal, s1)"
    using forward_never_throws [of e s] by (cases "forward_branch e s") simp
  obtain s2 where s2: "forward_branch e ?s0 = (Normal, s2)"
    using forward_never_throws [of e ?s0] by (cases "forward_branch e ?s0") simp
  note r1 = forward_unreachable [OF assms(3), of s, unfolded s1]
  note r2 = forward_unreachable [OF assms(3), of ?s0, unfolded s2]
  have "frontendMiddleware e ?s0 = (Normal, s2)"
    using assms(1) s2 by (simp add: frontend_forward)
  from server_proxied_normal [OF assms(2) this]
  have "server e router s =
      (Normal, emit [LogInfo (req_method (req s)) (pathname (req s)) (res_code s2)] s2)" .
  with r1 r2 s1 assms(1) show ?thesis
    by (simp add: frontend_forward emit_simps)
qed

theorem C2_bad_gateway_witness:
  "fst (frontendMiddleware down_env (fresh post_form False)) = Normal
    \<and> res_code (snd (frontendMiddleware down_env (fresh post_form False))) = Some 502
    \<and> res_bdy (snd (frontendMiddleware down_env (fresh post_form False))) = Text ''Bad Gateway''
    \<and> fst (server down_env (\<lambda>s. (Normal, s)) (fresh post_form False)) = Normal
    \<and> res_code (snd (server down_env (\<lambda>s. (Normal, s)) (fresh post_form False))) = Some 502
    \<and> res_bdy (snd (server down_env (\<lambda>s. (Normal, s)) (fresh post_form False)))
        = Text ''Bad Gateway''"
proof -
  have a: "\<not> startsWith (pathname (req (fresh post_form False))) (PREFIX down_env)"
    by (simp add: startsWith_def fresh_def post_form_def down_env_def dev_env_def)
  have b: "\<And>out. isl (fetch down_env out)"
    by (simp add: down_env_def dev_env_def)
  from C2_bad_gateway [of "fresh post_form False" down_env "\<lambda>s. (Normal, s)",
      OF sample_upgrade(2) a b]
  show ?thesis by simp
qed

text \<open>
  Claim C4, at the input where the code departs from it. The source asks for the body
  with the call \<open>ctx.request.body()\<close>; under the Oak it imports that call throws inside
  the \<open>try\<close>. A request that carries a body is therefore answered with 502 and
  \<open>Bad Gateway\<close>, and no outbound request is made: the body never reaches the upstream.
\<close>

theorem C4_body_call_throws:
  "frontendMiddleware dev_env (fresh post_form False) =
     (Normal, (fresh post_form False)
        \<lparr>res_code := Some 502, res_bdy := Text ''Bad Gateway'',
         effects := [ReadBody, ConsoleError]\<rparr>)
    \<and> fetches (effects (snd (frontendMiddleware dev_env (fresh post_form False)))) = []"
  unfolding frontend_forward [OF sample_upgrade(2)]
  by (simp add: forward_branch_def bad_gateway_def emit_def fresh_def post_form_def
      dev_env_def)

text \<open>
  Claim C5. When the upstream answers a proxied HTTP request, the response the caller
  gets has the upstream's status, the upstream's headers and, as its body, the upstream's
  body stream with every chunk in place and in order, however many chunks there are (an
  answer without a body leaves the response body as it was); the middleware chain around
  the proxy leaves all three as they are.
\<close>

theorem C5_response_relayed:
  assumes "\<not> is_websocket_upgrade s"
    and "\<not> startsWith (pathname (req s)) (PREFIX e)"
    and "hasBody (req s) \<longrightarrow> body_read e = Inr v"
    and "\<And>out. fetch e out = Inr r"
  shows "fst (frontendMiddleware e s) = Normal
    \<and> res_code (snd (frontendMiddleware e s)) = Some (res_status r)
    \<and> res_hdrs (snd (frontendMiddleware e s)) = res_headers r
    \<and> res_bdy (snd (frontendMiddleware e s)) =
        (case res_body r of None \<Rightarrow> res_bdy s | Some chunks \<Rightarrow> ReadableStream chunks)
    \<and> fst (server e router s) = Normal
    \<and> res_code (snd (server e router s)) = Some (res_status r)
    \<and> res_hdrs (snd (server e router s)) = res_headers r
    \<and> res_bdy (snd (server e router s)) =
        (case res_body r of None \<Rightarrow> res_bdy s | Some chunks \<Rightarrow> ReadableStream chunks)"
proof -
  let ?s0 = "emit [LogInfo (req_method (req s)) (pathname (req s)) None] s"
  have b0: "hasBody (req ?s0) \<longrightarrow> body_read e = Inr v"
    using assms(3) by (simp add: emit_simps)
  obtain s2 where s2: "forward_branch e ?s0 = (Normal, s2)"
    using forward_never_throws [of e ?s0] by (cases "forward_branch e ?s0") simp
  note r1 = forward_answered [OF assms(3) assms(4)]
  note r2 = forward_answered [OF b0 assms(4), unfolded s2]
  have "frontendMiddleware e ?s0 = (Normal, s2)"
    using assms(1) s2 by (simp add: frontend_forward)
  from server_proxied_normal [OF assms(2) this]
  have "server e router s =
      (Normal, emit [LogInfo (req_method (req s)) (pathname (req s)) (res_code s2)] s2)" .
  with r1 r2 assms(1) show ?thesis
    by (cases "res_body r") (simp_all add: frontend_forward emit_simps forward_never_throws)
qed

theorem C5_response_relayed_witness:
  "fst (server dev_env (\<lambda>s. (Normal, s)) (fresh get_script False)) = Normal
    \<and> res_code (snd (server dev_env (\<lambda>s. (Normal, s)) (fresh get_script False))) = Some 200
    \<and> res_hdrs (snd (server dev_env (\<lambda>s. (Normal, s)) (fresh get_script False)))
        = [(''content-type'', ''text/javascript'')]
    \<and> res_bdy (snd (server dev_env (\<lambda>s. (Normal, s)) (fresh get_script False)))
        = ReadableStream [''console.log(1)'']"
proof -
  have a: "\<not> startsWith (pathname (req (fresh get_script False))) (PREFIX dev_env)"
    by (simp add: startsWith_def fresh_def get_script_def dev_env_def)
  have b: "hasBody (req (fresh get_script False)) \<longrightarrow> body_read dev_env = Inr []"
    by (simp add: fresh_def get_script_def)
  have c: "\<And>out. fetch dev_env out = Inr script_response"
    by (simp add: dev_env_def)
  from C5_response_relayed [of "fresh get_script False" dev_env "[]" script_response
      "\<lambda>s. (Normal, s)", OF sample_upgrade(1) a b c]
  show ?thesis by (simp add: script_response_def)
qed

section \<open>The WebSocket tunnel\<close>

text \<open>What the tunnel branch does in each of its outcomes.\<close>

lemma tunnel_not_upgradable:
  "\<not> isUpgradable s \<Longrightarrow>
     tunnel_branch e s = (Throw (HttpError 501 (throw_message e 501)), s)"
  by (simp add: tunnel_branch_def)

lemma tunnel_open_fails:
  assumes "isUpgradable s" and "upgrade_result e = Inr u"
    and "new_WebSocket e (wsUrl e s) = Inl err"
  shows "tunnel_branch e s =
    (Normal, (emit [Upgrade, NewWebSocket (wsUrl e s)] s)\<lparr>res_code := Some 500\<rparr>)"
  using assms by (simp add: tunnel_branch_def)

lemma tunnel_opens:
  assumes "isUpgradable s" and "upgrade_result e = Inr u"
    and "new_WebSocket e (wsUrl e s) = Inr w"
  shows "tunnel_branch e s =
    (Normal, (emit [Upgrade, NewWebSocket (wsUrl e s)] s)
               \<lparr>tunnel := Some relay_handlers, res_bdy := SocketBody\<rparr>)"
  using assms by (simp add: tunnel_branch_def)

text \<open>Every tunnel the middleware sets up has the handlers of the source.\<close>

lemma frontend_tunnel_handlers:
  assumes "tunnel s = None" and "tunnel (snd (frontendMiddleware e s)) = Some r"
  shows "r = relay_handlers"
proof (cases "is_websocket_upgrade s")
  case True
  with assms show ?thesis
    by (auto simp add: frontend_tunnel tunnel_branch_def emit_simps Let_def
        split: if_splits sum.splits)
next
  case False
  with assms show ?thesis
    by (auto simp add: frontend_forward forward_branch_def bad_gateway_def emit_simps Let_def
        split: if_splits sum.splits)
qed

text \<open>One event at the handlers of the source.\<close>

lemma relay_handlers_fields:
  "wsClient_onmessage relay_handlers d = [Send Ws d]"
  "wsClient_onclose relay_handlers = [Close Ws]"
  "wsClient_onerror relay_handlers = [Close Ws]"
  "ws_onmessage relay_handlers d = [Send WsClient d]"
  "ws_onclose relay_handlers = [Close WsClient]"
  "ws_onerror relay_handlers = [Close Ws]"
  by (simp_all add: relay_handlers_def)

lemma fire_message: "fire relay_handlers (OnMessage k d) = [Send (other k) d]"
  by (cases k) (simp_all add: relay_handlers_fields)

lemma fire_close: "fire relay_handlers (OnClose k) = [Close (other k)]"
  by (cases k) (simp_all add: relay_handlers_fields)

lemma fire_error: "fire relay_handlers (OnError k) = [Close Ws]"
  by (cases k) (simp_all add: relay_handlers_fields)

lemma sent_to_fire_all:
  "sent_to k (map Call (fire_all relay_handlers evs)) = received_on (other k) evs"
proof (induction evs)
  case Nil
  show ?case by simp
next
  case (Cons ev evs)
  show ?case
  proof (cases ev)
    case (OnMessage k' d)
    with Cons show ?thesis
      by (cases k; cases k') (simp_all add: relay_handlers_fields)
  next
    case (OnClose k')
    with Cons show ?thesis
      by (cases k') (simp_all add: relay_handlers_fields)
  next
    case (OnError k')
    with Cons show ?thesis
      by (cases k') (simp_all add: relay_handlers_fields)
  qed
qed

text \<open>
  Three of the four triggers close the other side at once; an error on the downstream
  socket closes the downstream socket itself, and the upstream is closed only once the
  close event of the downstream socket arrives.
\<close>

lemma close_other_side:
  "fire relay_handlers (OnClose Ws) = [Close WsClient]"
  "fire relay_handlers (OnClose WsClient) = [Close Ws]"
  "fire relay_handlers (OnError WsClient) = [Close Ws]"
  by (simp_all add: relay_handlers_fields)

lemma downstream_error_then_close:
  "fire_all relay_handlers [OnError Ws, OnClose Ws] = [Close Ws, Close WsClient]"
  by (simp add: relay_handlers_fields)

text \<open>
  An accepted upgrade is followed by exactly one attempt to open the upstream socket,
  at \<open>ws://\<close> followed by the upstream address, the path and the query.
\<close>

lemma tunnel_opens_once:
  assumes "is_websocket_upgrade s" and "isUpgradable s" and "upgrade_result e = Inr u"
  shows "effects (snd (frontendMiddleware e s)) =
    effects s @ [Upgrade,
                 NewWebSocket (''ws://'' @ WEB_URL e @ pathname (req s) @ search (req s))]"
  using assms
  by (cases "new_WebSocket e (wsUrl e s)")
     (simp_all add: frontend_tunnel tunnel_open_fails tunnel_opens emit_simps wsUrl_def
        searchParams_search)

lemma server_not_upgradable:
  assumes "is_websocket_upgrade s" and "\<not> isUpgradable s"
    and "\<not> startsWith (pathname (req s)) (PREFIX e)"
  shows "server e router s =
    (Normal,
     s\<lparr>res_code := Some 501,
       res_bdy := Envelope (errorBody (throw_message e 501)),
       respond := True,
       effects := effects s @ [LogInfo (req_method (req s)) (pathname (req s)) None, ConsoleError,
                               LogInfo (req_method (req s)) (pathname (req s)) (Some 501)]\<rparr>)"
proof -
  let ?s0 = "emit [LogInfo (req_method (req s)) (pathname (req s)) None] s"
  have "frontendMiddleware e ?s0 = (Throw (HttpError 501 (throw_message e 501)), ?s0)"
    using assms(1,2) by (simp add: frontend_tunnel tunnel_not_upgradable emit_simps)
  from server_proxied_throw [OF assms(3) this] show ?thesis
    by (simp add: emit_def)
qed

text \<open>
  Claim C3. A request whose \<open>Upgrade\<close> header names the WebSocket protocol, in any
  letter case, on a transport that cannot be upgraded, is answered with status 501: the
  proxy throws the 501 error, the chain completes normally with that status, and the
  trace gains the two log lines and the error line only; no upgrade, no upstream socket,
  no outbound request and no tunnel.
\<close>

theorem C3_not_upgradable:
  assumes "is_websocket_upgrade s" and "\<not> isUpgradable s"
    and "\<not> startsWith (pathname (req s)) (PREFIX e)"
  shows "frontendMiddleware e s = (Throw (HttpError 501 (throw_message e 501)), s)
    \<and> fst (server e router s) = Normal
    \<and> res_code (snd (server e router s)) = Some 501
    \<and> effects (snd (server e router s)) =
        effects s @ [LogInfo (req_method (req s)) (pathname (req s)) None, ConsoleError,
                     LogInfo (req_method (req s)) (pathname (req s)) (Some 501)]
    \<and> opened (effects (snd (server e router s))) = opened (effects s)
    \<and> fetches (effects (snd (server e router s))) = fetches (effects s)
    \<and> tunnel (snd (server e router s)) = tunnel s"
  using assms server_not_upgradable [OF assms, of router]
  by (simp add: frontend_tunnel tunnel_not_upgradable opened_append fetches_append)

theorem C3_not_upgradable_witness:
  "frontendMiddleware dev_env (fresh ws_request False)
     = (Throw (HttpError 501 ''Not Implemented''), fresh ws_request False)
    \<and> fst (server dev_env (\<lambda>s. (Normal, s)) (fresh ws_request False)) = Normal
    \<and> res_code (snd (server dev_env (\<lambda>s. (Normal, s)) (fresh ws_request False))) = Some 501
    \<and> effects (snd (server dev_env (\<lambda>s. (Normal, s)) (fresh ws_request False))) =
        [LogInfo ''GET'' ''/ws'' None, ConsoleError, LogInfo ''GET'' ''/ws'' (Some 501)]
    \<and> opened (effects (snd (server dev_env (\<lambda>s. (Normal, s)) (fresh ws_request False)))) = []
    \<and> tunnel (snd (server dev_env (\<lambda>s. (Normal, s)) (fresh ws_request False))) = None"
proof -
  have a: "\<not> isUpgradable (fresh ws_request False)"
    by (simp add: fresh_def)
  have b: "\<not> startsWith (pathname (req (fresh ws_request False))) (PREFIX dev_env)"
    by (simp add: startsWith_def fresh_def ws_request_def dev_env_def)
  from C3_not_upgradable [of "fresh ws_request False" dev_env "\<lambda>s. (Normal, s)",
      OF sample_upgrade(3) a b]
  show ?thesis
    by (simp add: fresh_def ws_request_def dev_env_def)
qed

text \<open>
  Claim C10. In that case the 501 comes from \<open>ctx.throw\<close> and is turned into the response
  by the global error middleware: the status is 501, and the body is the error envelope
  with \<open>code\<close> 500, \<open>data\<close> null, \<open>status\<close> \<open>error\<close> and the message of the thrown error.
\<close>

theorem C10_error_envelope:
  assumes "is_websocket_upgrade s" and "\<not> isUpgradable s"
    and "\<not> startsWith (pathname (req s)) (PREFIX e)"
  shows "fst (frontendMiddleware e s) = Throw (HttpError 501 (throw_message e 501))
    \<and> error_message (HttpError 501 (throw_message e 501)) = Some (throw_message e 501)
    \<and> fst (errorMiddleware (proxy_dispatch e router) s) = Normal
    \<and> res_code (snd (server e router s)) = Some 501
    \<and> res_bdy (snd (server e router s)) =
        Envelope \<lparr>code = 500, data = None, status = ''error'',
                  message = throw_message e 501\<rparr>"
  using assms server_not_upgradable [OF assms, of router]
  by (simp add: frontend_tunnel tunnel_not_upgradable errorMiddleware_def proxy_dispatch_def
      errorBody_def)

theorem C10_error_envelope_witness:
  "res_code (snd (server dev_env (\<lambda>s. (Normal, s)) (fresh ws_request False))) = Some 501
    \<and> res_bdy (snd (server dev_env (\<lambda>s. (Normal, s)) (fresh ws_request False))) =
        Envelope \<lparr>code = 500, data = None, status = ''error'',
                  message = ''Not Implemented''\<rparr>"
proof -
  have a: "\<not> isUpgradable (fresh ws_request False)"
    by (simp add: fresh_def)
  have b: "\<not> startsWith (pathname (req (fresh ws_request False))) (PREFIX dev_env)"
    by (simp add: startsWith_def fresh_def ws_request_def dev_env_def)
  from C10_error_envelope [of "fresh ws_request False" dev_env "\<lambda>s. (Normal, s)",
      OF sample_upgrade(3) a b]
  show ?thesis
    by (simp add: dev_env_def)
qed

text \<open>What a run of events makes the handlers of the source close.\<close>

lemma fire_all_append: "fire_all r (xs @ ys) = fire_all r xs @ fire_all r ys"
  by (induction xs) simp_all

lemma deliver_relay:
  "tunnel s = Some relay_handlers \<Longrightarrow>
     effects (deliver evs s) = effects s @ map Call (fire_all relay_handlers evs)"
  by (simp add: deliver_def emit_simps)

lemma close_event_closes_other:
  "OnClose k \<in> set evs \<Longrightarrow> closed (other k) (map Call (fire_all relay_handlers evs))"
proof (induction evs)
  case Nil
  then show ?case by simp
next
  case (Cons ev evs)
  show ?case
  proof (cases "ev = OnClose k")
    case True
    then show ?thesis by (simp add: fire_close closed_append)
  next
    case False
    with Cons show ?thesis by (simp add: closed_append)
  qed
qed

lemma error_event_closes_downstream:
  "OnError k \<in> set evs \<Longrightarrow> closed Ws (map Call (fire_all relay_handlers evs))"
proof (induction evs)
  case Nil
  then show ?case by simp
next
  case (Cons ev evs)
  show ?case
  proof (cases "ev = OnError k")
    case True
    then show ?thesis by (simp add: fire_error closed_append)
  next
    case False
    with Cons show ?thesis by (simp add: closed_append)
  qed
qed

lemma error_then_close_mem:
  "error_then_close evs \<Longrightarrow> OnError k \<in> set evs \<Longrightarrow> OnClose k \<in> set evs"
  by (induction evs rule: error_then_close.induct) auto

text \<open>
  Claim C6. On every tunnel the middleware sets up: once the close event of one side has
  been handled, close has been called on the other side; once an error of the upstream
  socket has been handled, close has been called on the downstream socket; an error of
  the downstream socket makes the proxy close the downstream socket, and the close event
  that follows it closes the upstream. Hence in every run of events in which an error is
  followed by the close event of its socket, a side that closes or errs has the other
  side closed in response, at the latest when its own close event is handled: no side is
  left open.
\<close>

theorem C6_other_side_closed:
  assumes "tunnel s = None" and "tunnel (snd (frontendMiddleware e s)) \<noteq> None"
  shows "closed (other k)
           (effects (deliver (pre @ [OnClose k]) (snd (frontendMiddleware e s))))
    \<and> closed Ws (effects (deliver (pre @ [OnError WsClient]) (snd (frontendMiddleware e s))))
    \<and> closed Ws (effects (deliver (pre @ [OnError Ws]) (snd (frontendMiddleware e s))))
    \<and> (error_then_close evs \<and> (OnClose k \<in> set evs \<or> OnError k \<in> set evs) \<longrightarrow>
          closed (other k) (effects (deliver evs (snd (frontendMiddleware e s)))))"
proof -
  from assms(2) obtain r where r: "tunnel (snd (frontendMiddleware e s)) = Some r"
    by auto
  with assms(1) have "r = relay_handlers"
    by (rule frontend_tunnel_handlers)
  with r have t: "tunnel (snd (frontendMiddleware e s)) = Some relay_handlers"
    by simp
  have 1: "closed (other k)
      (effects (deliver (pre @ [OnClose k]) (snd (frontendMiddleware e s))))"
    using close_event_closes_other [of k "pre @ [OnClose k]"]
    by (simp add: deliver_relay [OF t] closed_append)
  have 2: "closed Ws
      (effects (deliver (pre @ [OnError k']) (snd (frontendMiddleware e s))))" for k'
    using error_event_closes_downstream [of k' "pre @ [OnError k']"]
    by (simp add: deliver_relay [OF t] closed_append)
  have 3: "closed (other k) (effects (deliver evs (snd (frontendMiddleware e s))))"
    if "error_then_close evs" and "OnClose k \<in> set evs \<or> OnError k \<in> set evs"
  proof -
    from that have "OnClose k \<in> set evs"
      using error_then_close_mem by blast
    then show ?thesis
      using close_event_closes_other [of k evs]
      by (simp add: deliver_relay [OF t] closed_append)
  qed
  from 1 2 [of WsClient] 2 [of Ws] 3 show ?thesis
    by blast
qed

theorem C6_other_side_closed_witness:
  "closed WsClient (effects (deliver [OnMessage Ws ''ping'', OnClose Ws]
       (snd (frontendMiddleware dev_env (fresh ws_request True)))))
    \<and> closed Ws (effects (deliver [OnMessage Ws ''ping'', OnError WsClient]
       (snd (frontendMiddleware dev_env (fresh ws_request True)))))
    \<and> closed Ws (effects (deliver [OnMessage Ws ''ping'', OnError Ws]
       (snd (frontendMiddleware dev_env (fresh ws_request True)))))
    \<and> error_then_close [OnMessage Ws ''ping'', OnError Ws, OnClose Ws]
    \<and> closed WsClient (effects (deliver [OnMessage Ws ''ping'', OnError Ws, OnClose Ws]
       (snd (frontendMiddleware dev_env (fresh ws_request True)))))"
proof -
  have t: "frontendMiddleware dev_env (fresh ws_request True) =
     (Normal, (fresh ws_request True)
        \<lparr>effects := [Upgrade, NewWebSocket ''ws://localhost:5173/ws?token=abc''],
         tunnel := Some relay_handlers, res_bdy := SocketBody\<rparr>)"
    unfolding frontend_tunnel [OF sample_upgrade(3)]
    by (simp add: tunnel_branch_def emit_def wsUrl_def searchParams_def fresh_def
        ws_request_def dev_env_def)
  have a: "tunnel (fresh ws_request True) = None"
    by (simp add: fresh_def)
  have b: "tunnel (snd (frontendMiddleware dev_env (fresh ws_request True))) \<noteq> None"
    by (simp add: t)
  have c: "error_then_close [OnMessage Ws ''ping'', OnError Ws, OnClose Ws]"
    by simp
  from C6_other_side_closed [OF a b, where k = Ws and pre = "[OnMessage Ws ''ping'']"
      and evs = "[OnMessage Ws ''ping'', OnError Ws, OnClose Ws]"] c
  show ?thesis
    by simp
qed

text \<open>
  Claim C7, at the input where the code departs from it: when the constructor of the
  upstream socket throws after the downstream upgrade, the proxy sets status 500 and
  returns; it installs no handler and does not close the downstream socket, neither then
  nor on any event \<open>evs\<close> that follows.
\<close>

theorem C7_open_fails:
  "frontendMiddleware bad_url_env (fresh ws_request True) =
     (Normal, (fresh ws_request True)
        \<lparr>res_code := Some 500,
         effects := [Upgrade, NewWebSocket ''ws://localhost:port/ws?token=abc'']\<rparr>)
    \<and> tunnel (snd (frontendMiddleware bad_url_env (fresh ws_request True))) = None
    \<and> \<not> closed Ws (effects (deliver evs
                        (snd (frontendMiddleware bad_url_env (fresh ws_request True)))))"
  unfolding frontend_tunnel [OF sample_upgrade(3)]
  by (simp add: tunnel_branch_def deliver_def emit_def wsUrl_def searchParams_def fresh_def
      ws_request_def bad_url_env_def dev_env_def)

text \<open>
  Claim C8. On every tunnel the middleware sets up, and for each direction by itself, the
  messages handed to \<open>send\<close> on one socket are the messages that arrived on the other
  socket, each once and in their order of arrival, whatever else happens in between
  (messages of the other direction, close and error events).
\<close>

theorem C8_fifo:
  assumes "tunnel s = None" and "tunnel (snd (frontendMiddleware e s)) \<noteq> None"
  shows "sent_to WsClient (effects (deliver evs (snd (frontendMiddleware e s)))) =
           sent_to WsClient (effects (snd (frontendMiddleware e s))) @ received_on Ws evs
    \<and> sent_to Ws (effects (deliver evs (snd (frontendMiddleware e s)))) =
           sent_to Ws (effects (snd (frontendMiddleware e s))) @ received_on WsClient evs"
proof -
  from assms(2) obtain r where r: "tunnel (snd (frontendMiddleware e s)) = Some r"
    by auto
  with assms(1) have "r = relay_handlers"
    by (rule frontend_tunnel_handlers)
  with r show ?thesis
    by (simp add: deliver_def emit_simps sent_to_append sent_to_fire_all)
qed

theorem C8_fifo_witness:
  "sent_to WsClient (effects (deliver
       [OnMessage Ws ''ping'', OnMessage WsClient ''pong'', OnMessage Ws ''bye'', OnClose Ws]
       (snd (frontendMiddleware dev_env (fresh ws_request True))))) = [''ping'', ''bye'']
    \<and> sent_to Ws (effects (deliver
       [OnMessage Ws ''ping'', OnMessage WsClient ''pong'', OnMessage Ws ''bye'', OnClose Ws]
       (snd (frontendMiddleware dev_env (fresh ws_request True))))) = [''pong'']"
proof -
  have t: "frontendMiddleware dev_env (fresh ws_request True) =
     (Normal, (fresh ws_request True)
        \<lparr>effects := [Upgrade, NewWebSocket ''ws://localhost:5173/ws?token=abc''],
         tunnel := Some relay_handlers, res_bdy := SocketBody\<rparr>)"
    unfolding frontend_tunnel [OF sample_upgrade(3)]
    by (simp add: tunnel_branch_def emit_def wsUrl_def searchParams_def fresh_def
        ws_request_def dev_env_def)
  have a: "tunnel (fresh ws_request True) = None"
    by (simp add: fresh_def)
  have b: "tunnel (snd (frontendMiddleware dev_env (fresh ws_request True))) \<noteq> None"
    by (simp add: t)
  from C8_fifo [OF a b, of
      "[OnMessage Ws ''ping'', OnMessage WsClient ''pong'', OnMessage Ws ''bye'', OnClose Ws]"]
  show ?thesis
    by (simp add: t)
qed


end
